theory Spec2Isabelle
  imports Main
begin

section \<open>The token lexer and translator (package flextime)\<close>

text \<open>
  Go strings are byte sequences; they are modelled as \<^typ>\<open>string\<close> (a list of
  \<^typ>\<open>char\<close>).  A slice expression \<^verbatim>\<open>s[lo:hi]\<close> panics at run time unless
  \<^verbatim>\<open>lo <= hi <= len(s)\<close>; a call of \<^verbatim>\<open>panic\<close> aborts as well.  Both are values
  of the type \<open>runtime_panic\<close>, and a function that may panic returns
  \<open>runtime_panic + 'a\<close>.
\<close>

abbreviation bslash :: char where "bslash \<equiv> CHR 0x5C"
abbreviation squote_c :: char where "squote_c \<equiv> CHR 0x27"

datatype runtime_panic =
    slice_bounds_out_of_range
  | unknown_token string
  | incorrect_implementation string string

definition slice :: "string \<Rightarrow> nat \<Rightarrow> nat \<Rightarrow> runtime_panic + string" where
  "slice s lo hi =
     (if lo \<le> hi \<and> hi \<le> length s then Inr (take (hi - lo) (drop lo s))
      else Inl slice_bounds_out_of_range)"

definition slice_from :: "string \<Rightarrow> nat \<Rightarrow> runtime_panic + string" where
  "slice_from s lo = (if lo \<le> length s then Inr (drop lo s) else Inl slice_bounds_out_of_range)"

definition slice_to :: "string \<Rightarrow> nat \<Rightarrow> runtime_panic + string" where
  "slice_to s hi = (if hi \<le> length s then Inr (take hi s) else Inl slice_bounds_out_of_range)"

text \<open>\<^verbatim>\<open>strings.HasPrefix\<close> and \<^verbatim>\<open>strings.HasSuffix\<close>.\<close>

definition HasPrefix :: "string \<Rightarrow> string \<Rightarrow> bool" where
  "HasPrefix s p = (take (length p) s = p)"

definition HasSuffix :: "string \<Rightarrow> string \<Rightarrow> bool" where
  "HasSuffix s p = (length p \<le> length s \<and> drop (length s - length p) s = p)"

datatype FormatError = FormatError (idx: int) (expected: string) (actual: string) (msg: string)

text \<open>
  The outcome of a Go function of result type \<^verbatim>\<open>(T, error)\<close>: it panics, it returns a
  non-nil error, or it returns a value with a nil error.
\<close>

datatype ('e, 'a) outcome = Panic runtime_panic | Err 'e | Ok 'a

subsection \<open>getRepeatOf and getUntilClosingSingleQuote\<close>

function getRepeatOf_loop :: "string \<Rightarrow> string \<Rightarrow> nat \<Rightarrow> runtime_panic + string" where
  "getRepeatOf_loop input target i =
     (if \<not> i < length input then Inr input
      else case slice input i (i + length target) of
             Inl p \<Rightarrow> Inl p
           | Inr w \<Rightarrow>
               if w \<noteq> target then
                 (if 1 \<le> i + length target then slice_to input (i + length target - 1)
                  else Inl slice_bounds_out_of_range)
               else getRepeatOf_loop input target (Suc i))"
  by pat_completeness auto
termination
  by (relation "measure (\<lambda>(input, target, i). length input - i)") auto

definition getRepeatOf :: "string \<Rightarrow> string \<Rightarrow> runtime_panic + string" where
  "getRepeatOf input target = getRepeatOf_loop input target 0"

function getUntilClosingSingleQuote_loop :: "string \<Rightarrow> nat \<Rightarrow> string" where
  "getUntilClosingSingleQuote_loop input i =
     (if \<not> i < length input then input
      else if input ! i = squote_c then
        (if i = 0 then []
         else if input ! (i - 1) \<noteq> bslash \<or> HasSuffix (take (i + 1) input) [bslash, bslash, squote_c]
           then take i input
         else getUntilClosingSingleQuote_loop input (Suc i))
      else getUntilClosingSingleQuote_loop input (Suc i))"
  by pat_completeness auto
termination
  by (relation "measure (\<lambda>(input, i). length input - i)") auto

definition getUntilClosingSingleQuote :: "string \<Rightarrow> string" where
  "getUntilClosingSingleQuote input = getUntilClosingSingleQuote_loop input 0"

subsection \<open>The token tables\<close>

definition tokenSerachTable :: "char \<Rightarrow> string list option" where
  "tokenSerachTable c =
     (if c = CHR ''M'' then Some [''MMMM'', ''MMM'', ''MST'', ''MM'', ''M'']
      else if c = CHR ''w'' then Some [''ww'', ''w'']
      else if c = CHR ''d'' then Some [''ddd'', ''dd'', ''d'']
      else if c = CHR ''D'' then Some [''DDD'', ''DD'', ''D'']
      else if c = CHR ''H'' then Some [''HH'']
      else if c = CHR ''h'' then Some [''hh'', ''h'']
      else if c = CHR ''m'' then Some [''mm'', ''m'']
      else if c = CHR ''s'' then Some [''ss'', ''s'']
      else if c = CHR ''Y'' then Some [''YYYY'', ''YY'']
      else if c = CHR ''y'' then Some [''yyyy'', ''yy'']
      else if c = CHR ''A'' then Some [''A'']
      else if c = CHR ''a'' then Some [''a'']
      else if c = CHR ''Z'' then Some [''Z07:00:00'', ''Z070000'', ''Z07'', ''ZZ'', ''Z'']
      else if c = CHR ''-'' then Some [''-07:00:00'', ''-070000'', ''-07:00'', ''-0700'', ''-07'']
      else None)"

definition tokenTable :: "(string \<times> string) list" where
  "tokenTable =
     [(''MMMM'', ''January''), (''MMM'', ''Jan''), (''M'', ''1''), (''MM'', ''01''),
      (''ww'', ''Monday''), (''w'', ''Mon''), (''D'', ''2''), (''d'', ''2''),
      (''DD'', ''02''), (''dd'', ''02''), (''DDD'', ''002''), (''ddd'', ''002''),
      (''HH'', ''15''), (''h'', ''3''), (''hh'', ''03''), (''m'', ''4''), (''mm'', ''04''),
      (''s'', ''5''), (''ss'', ''05''), (''YYYY'', ''2006''), (''yyyy'', ''2006''),
      (''YY'', ''06''), (''yy'', ''06''), (''A'', ''PM''), (''a'', ''pm''), (''MST'', ''MST''),
      (''ZZ'', ''Z0700''), (''Z070000'', ''Z070000''), (''Z07'', ''Z07''), (''Z'', ''Z07:00''),
      (''Z07:00:00'', ''Z07:00:00''), (''-0700'', ''-0700''), (''-070000'', ''-070000''),
      (''-07'', ''-07''), (''-07:00'', ''-07:00''), (''-07:00:00'', ''-07:00:00'')]"

text \<open>\<^verbatim>\<open>strings.ReplaceAll(tt, "S", "0")\<close> replaces a one-byte pattern.\<close>

definition ReplaceAll_S_0 :: "string \<Rightarrow> string" where
  "ReplaceAll_S_0 s = map (\<lambda>c. if c = CHR ''S'' then CHR ''0'' else c) s"

definition toGoFmt :: "string \<Rightarrow> runtime_panic + string" where
  "toGoFmt tt =
     (case map_of tokenTable tt of
        Some token \<Rightarrow> Inr token
      | None \<Rightarrow>
          if HasPrefix tt ''.S'' then Inr (ReplaceAll_S_0 tt)
          else if HasPrefix tt ''.0'' \<or> HasPrefix tt ''.9'' then Inr tt
          else Inl (unknown_token tt))"

subsection \<open>nextChunk\<close>

text \<open>
  \<^verbatim>\<open>fmt.Sprintf("must be prefixed with one of %+v", possibleSequences)\<close> prints a slice
  of strings as its elements between brackets, separated by one space.
\<close>

fun join_space :: "string list \<Rightarrow> string" where
  "join_space [] = []"
| "join_space [x] = x"
| "join_space (x # y # ys) = x @ '' '' @ join_space (y # ys)"

definition expected_msg :: "string list \<Rightarrow> string" where
  "expected_msg possibleSequences =
     ''must be prefixed with one of '' @ ''['' @ join_space possibleSequences @ '']''"

text \<open>The first candidate spelling that is a prefix of the rest of the input.\<close>

fun first_possible :: "string list \<Rightarrow> string \<Rightarrow> string option" where
  "first_possible [] rest = None"
| "first_possible (possible # ps) rest =
     (if HasPrefix rest possible then Some possible else first_possible ps rest)"

type_synonym chunk = "string \<times> string \<times> string \<times> bool"

function nextChunk_loop :: "string \<Rightarrow> nat \<Rightarrow> (FormatError, chunk) outcome" where
  "nextChunk_loop input i =
     (if \<not> i < length input then Ok (input, [], [], False)
      else if input ! i = bslash then
        (case slice_to input i of Inl p \<Rightarrow> Panic p | Inr pre \<Rightarrow>
         case slice input (i + 1) (i + 2) of Inl p \<Rightarrow> Panic p | Inr found \<Rightarrow>
         case slice_from input (i + 2) of Inl p \<Rightarrow> Panic p | Inr suf \<Rightarrow>
           Ok (pre, found, suf, False))
      else if input ! i = CHR ''.'' \<and>
              (HasPrefix (drop i input) ''.S'' \<or> HasPrefix (drop i input) ''.9''
               \<or> HasPrefix (drop i input) ''.0'') then
        (case slice_from input (i + 1) of Inl p \<Rightarrow> Panic p | Inr tl1 \<Rightarrow>
         case slice input (i + 1) (i + 2) of Inl p \<Rightarrow> Panic p | Inr target \<Rightarrow>
         case getRepeatOf tl1 target of Inl p \<Rightarrow> Panic p | Inr repeated \<Rightarrow>
         case slice_to input i of Inl p \<Rightarrow> Panic p | Inr pre \<Rightarrow>
         case slice_from input (i + length (''.'' @ repeated)) of Inl p \<Rightarrow> Panic p | Inr suf \<Rightarrow>
           Ok (pre, ''.'' @ repeated, suf, True))
      else if input ! i = squote_c then
        (case slice_from input (i + 1) of Inl p \<Rightarrow> Panic p | Inr tl1 \<Rightarrow>
         let unescaped = getUntilClosingSingleQuote tl1 in
         case slice_to input i of Inl p \<Rightarrow> Panic p | Inr pre \<Rightarrow>
         case slice_from input (i + length ([squote_c] @ unescaped @ [squote_c])) of
           Inl p \<Rightarrow> Panic p
         | Inr suf \<Rightarrow> Ok (pre, unescaped, suf, False))
      else
        (case tokenSerachTable (input ! i) of
           None \<Rightarrow> nextChunk_loop input (Suc i)
         | Some possibleSequences \<Rightarrow>
             (case first_possible possibleSequences (drop i input) of
                Some possible \<Rightarrow>
                  (case slice_to input i of Inl p \<Rightarrow> Panic p | Inr pre \<Rightarrow>
                   case slice_from input (i + length possible) of Inl p \<Rightarrow> Panic p | Inr suf \<Rightarrow>
                     Ok (pre, possible, suf, True))
              | None \<Rightarrow>
                  if input ! i = CHR ''-'' then nextChunk_loop input (Suc i)
                  else Err (FormatError (int i) (expected_msg possibleSequences) (drop i input)
                              ''maybe wrong len, like Y or YYY.''))))"
  by pat_completeness auto
termination
  by (relation "measure (\<lambda>(input, i). length input - i)") auto

definition nextChunk :: "string \<Rightarrow> (FormatError, chunk) outcome" where
  "nextChunk input = nextChunk_loop input 0"

declare getRepeatOf_loop.simps [simp del]
declare getUntilClosingSingleQuote_loop.simps [simp del]
declare nextChunk_loop.simps [simp del]

lemma first_possible_mem: "first_possible ps r = Some f \<Longrightarrow> f \<in> set ps"
  by (induction ps) (auto split: if_splits)

lemma tokenSerachTable_nonempty: "tokenSerachTable c = Some ps \<Longrightarrow> [] \<notin> set ps"
  by (auto simp: tokenSerachTable_def split: if_splits)

lemma first_possible_nonempty:
  "tokenSerachTable c = Some ps \<Longrightarrow> first_possible ps r = Some f \<Longrightarrow> 0 < length f"
  using first_possible_mem tokenSerachTable_nonempty by fastforce

text \<open>Every chunk that \<open>nextChunk\<close> returns leaves a strictly shorter rest.\<close>

lemma nextChunk_loop_shorter:
  "nextChunk_loop input i = Ok (pre, found, suf, tok) \<Longrightarrow> input \<noteq> [] \<Longrightarrow>
   length suf < length input"
proof (induction input i rule: nextChunk_loop.induct)
  case (1 input i)
  from "1.prems" show ?case
    apply (subst (asm) nextChunk_loop.simps)
    apply (auto simp: slice_def slice_from_def slice_to_def Let_def "1.IH"
                dest: first_possible_nonempty split: if_splits sum.splits option.splits)
    done
qed

lemma nextChunk_shorter:
  "nextChunk input = Ok (pre, found, suf, tok) \<Longrightarrow> 0 < length input \<Longrightarrow>
   length suf < length input"
  unfolding nextChunk_def using nextChunk_loop_shorter by fastforce

subsection \<open>ReplaceTimeToken and ReplaceTimeTokenRaw\<close>

function ReplaceTimeToken_loop :: "string \<Rightarrow> string \<Rightarrow> (FormatError, string) outcome" where
  "ReplaceTimeToken_loop input output =
     (if \<not> 0 < length input then Ok output
      else case nextChunk input of
             Panic p \<Rightarrow> Panic p
           | Err e \<Rightarrow> Err e
           | Ok (pre, token, rest, isToken) \<Rightarrow>
               if isToken then
                 (case toGoFmt token of
                    Inl p \<Rightarrow> Panic p
                  | Inr g \<Rightarrow> ReplaceTimeToken_loop rest ((output @ pre) @ g))
               else ReplaceTimeToken_loop rest ((output @ pre) @ token))"
  by pat_completeness auto
termination
  by (relation "measure (\<lambda>(input, output). length input)")
     (auto dest: nextChunk_shorter)

declare ReplaceTimeToken_loop.simps [simp del]

definition ReplaceTimeToken :: "string \<Rightarrow> (FormatError, string) outcome" where
  "ReplaceTimeToken input = ReplaceTimeToken_loop input []"

text \<open>
  Modelled from the spec: the type \<^verbatim>\<open>optionalstring.Value\<close> with its methods
  \<^verbatim>\<open>Typ()\<close> and \<^verbatim>\<open>Unescaped()\<close> is not among the sources.  Following the
  data model (a literal run is a text tagged with its escaping origin), a run is the
  pair of what \<^verbatim>\<open>Typ()\<close> and \<^verbatim>\<open>Unescaped()\<close> return.
\<close>

datatype ValueType = Normal | SingleQuoteEscaped | SlashEscaped

datatype Value = Value (Typ: ValueType) (Unescaped: string)

fun ReplaceTimeTokenRaw_loop :: "Value list \<Rightarrow> string \<Rightarrow> (FormatError, string) outcome" where
  "ReplaceTimeTokenRaw_loop [] output = Ok output"
| "ReplaceTimeTokenRaw_loop (vv # vs) output =
     (case Typ vv of
        Normal \<Rightarrow>
          (case ReplaceTimeToken (Unescaped vv) of
             Panic p \<Rightarrow> Panic p
           | Err e \<Rightarrow> Err e
           | Ok replaced \<Rightarrow> ReplaceTimeTokenRaw_loop vs (output @ replaced))
      | _ \<Rightarrow> ReplaceTimeTokenRaw_loop vs (output @ Unescaped vv))"

definition ReplaceTimeTokenRaw :: "Value list \<Rightarrow> (FormatError, string) outcome" where
  "ReplaceTimeTokenRaw input = ReplaceTimeTokenRaw_loop input []"

section \<open>The expansion tree (package flextime, optional\_string.go)\<close>

text \<open>
  A \<open>treeNode\<close> owns its children: \<^verbatim>\<open>left\<close> and \<^verbatim>\<open>right\<close> are pointers that are
  nil or lead to a node no other node points to, so the tree is a datatype and
  \<open>None\<close> is the nil pointer.  The field \<^verbatim>\<open>value\<close> of the node and of a run are
  \<open>nvalue\<close> and \<open>vvalue\<close>, the fields \<^verbatim>\<open>typ\<close> are \<open>ntyp\<close> and \<open>vtyp\<close>; the node
  type \<^verbatim>\<open>text\<close> is \<open>text_node\<close>.  A nil slice and an empty slice are both \<open>[]\<close>.
\<close>

datatype valueType = normal | singleQuoteEscaped | slashEscaped
























section \<open>The claims\<close>

text \<open>
  Claim C4.  When scanning a quoted block, the closing quote is the first quote preceded
  by an even number of consecutive backslashes; in particular a quote preceded by exactly
  three backslashes does not close the block.  The code looks back two characters only:
  on the rest \<^verbatim>\<open>\\\'b'\<close> of a quoted block (three backslashes, a quote, \<^verbatim>\<open>b\<close>, a quote)
  \<open>getUntilClosingSingleQuote\<close> closes the block at the first quote and returns the three
  backslashes, where the claim has the block run on to the second quote.  With one
  backslash and with two the code does what the claim says.
\<close>

theorem getUntilClosingSingleQuote_three_backslashes:
  "getUntilClosingSingleQuote [bslash, bslash, bslash, squote_c, CHR ''b'', squote_c]
     = [bslash, bslash, bslash]
   \<and> getUntilClosingSingleQuote [bslash, squote_c, CHR ''b'', squote_c]
     = [bslash, squote_c, CHR ''b'']
   \<and> getUntilClosingSingleQuote [bslash, bslash, squote_c, CHR ''b'', squote_c]
     = [bslash, bslash]"
  by code_simp

text \<open>
  Claim C5.  Translating the token string \<^verbatim>\<open>YYY\<close> fails with a token error
  (\<open>FormatError\<close>) that carries a position, the acceptable spellings \<^verbatim>\<open>[YYYY YY]\<close> and
  the trailing text that matched none of them.  The lexer first takes \<^verbatim>\<open>YY\<close> as a
  token; the error is raised on the rest \<^verbatim>\<open>Y\<close>, so the position is 0, the offset in
  that rest.
\<close>

theorem ReplaceTimeToken_YYY:
  "ReplaceTimeToken ''YYY''
     = Err (FormatError 0 ''must be prefixed with one of [YYYY YY]'' ''Y''
              ''maybe wrong len, like Y or YYY.'')
   \<and> ReplaceTimeTokenRaw [Value Normal ''YYY'']
     = Err (FormatError 0 ''must be prefixed with one of [YYYY YY]'' ''Y''
              ''maybe wrong len, like Y or YYY.'')"
  by code_simp

text \<open>
  Claim C8.  For every input \<open>ReplaceTimeToken\<close> returns a string or a \<open>FormatError\<close>
  and never panics, also when the input ends with a lone backslash or has an unterminated
  quote.  The loop does terminate (see the termination proof of \<open>ReplaceTimeToken_loop\<close>),
  but on exactly these two inputs \<open>nextChunk\<close> slices beyond the end of the input:
  \<^verbatim>\<open>input[i+1 : i+2]\<close> after a final backslash, and
  \<^verbatim>\<open>input[i+len(`'`+unescaped+`'`):]\<close> when no closing quote was found.
\<close>

theorem ReplaceTimeToken_panics:
  "ReplaceTimeToken [bslash] = Panic slice_bounds_out_of_range
   \<and> ReplaceTimeToken [squote_c, CHR ''a''] = Panic slice_bounds_out_of_range
   \<and> ReplaceTimeToken (''YYYY'' @ [bslash]) = Panic slice_bounds_out_of_range"
  by code_simp




end
